theory Spec2Isabelle
  imports Complex_Main "HOL-Library.Sublist"
begin

section \<open>The shell interface of pseudoword\<close>

text \<open>
  The program under study is \<^verbatim>\<open>pseudoword.cc\<close>: a record of program arguments, a
  command-line parser built on POSIX \<^verbatim>\<open>getopt()\<close>, a usage printer, an application entry
  point and \<^verbatim>\<open>main\<close>. Each source function is embedded below under its own name.

  Effects are explicit. The two output streams the program writes are the fields of
  \<open>world\<close>; every function that can write takes the world and returns the new one.
  A C++ exception is a value of \<open>exn\<close>; a computation returns \<open>failure + 'a\<close> together
  with the world reached, so that output written before a \<^verbatim>\<open>throw\<close> is kept.
\<close>

subsection \<open>Streams, exceptions and failures\<close>

record world =
  stdout :: string
  stderr :: string

text \<open>
  The exceptions that can arise: \<^verbatim>\<open>std::runtime_error\<close> thrown by \<^verbatim>\<open>parse_args\<close>,
  and \<^verbatim>\<open>std::invalid_argument\<close> / \<^verbatim>\<open>std::out_of_range\<close> thrown by \<^verbatim>\<open>std::stoi\<close> and
  \<^verbatim>\<open>std::stod\<close>. All three derive from \<^verbatim>\<open>std::exception\<close>; the argument is \<^verbatim>\<open>what()\<close>.
\<close>

datatype exn =
  Runtime_error string
| Invalid_argument string
| Out_of_range string

fun what :: "exn \<Rightarrow> string" where
  "what (Runtime_error m) = m"
| "what (Invalid_argument m) = m"
| "what (Out_of_range m) = m"

text \<open>
  Besides a thrown exception, two ways of not returning are written in the source:
  \<^verbatim>\<open>assert(false)\<close> in the \<^verbatim>\<open>default:\<close> branch of the switch (the process aborts; no
  handler catches it), and the construction of a \<^verbatim>\<open>std::string\<close> from \<^verbatim>\<open>::optarg\<close>
  when that pointer is null (undefined behaviour). Both are branches of the model, and
  both are shown unreachable further down.
\<close>

datatype failure =
  Thrown exn
| Assert_failed
| Null_optarg

subsection \<open>\<^verbatim>\<open>struct program_arguments\<close>\<close>

text \<open>
  The field \<^verbatim>\<open>done\<close> is called \<open>done_flag\<close> here, \<open>done\<close> being a keyword of the proof
  language. The type \<^verbatim>\<open>double\<close> is the parameter \<open>'d\<close>: nothing in the program computes
  with it, the value is only produced by \<^verbatim>\<open>std::stod\<close> and stored. \<^verbatim>\<open>int\<close> is modelled
  by \<open>int\<close>; the only producer of such values, \<open>stoi\<close> below, checks the 32-bit range.
\<close>

record 'd program_arguments =
  compound_probability :: 'd
  ngram_length :: int
  number_of_words :: int
  constrained_prefix :: string
  dictionary_filename :: string
  done_flag :: bool

text \<open>The default member initialisers of the struct (\<^verbatim>\<open>program_arguments args;\<close>).\<close>

definition program_arguments_init :: "'d::zero program_arguments" where
  "program_arguments_init =
     \<lparr>compound_probability = 0,
      ngram_length = 3,
      number_of_words = 10,
      constrained_prefix = '''',
      dictionary_filename = '''',
      done_flag = False\<rparr>"

subsection \<open>\<^verbatim>\<open>application_main\<close>\<close>

text \<open>
  The body is \<^verbatim>\<open>(void) args;\<close> under a \<^verbatim>\<open>TODO\<close> comment: it returns normally and
  touches no stream.
\<close>

definition application_main :: "'d program_arguments \<Rightarrow> world \<Rightarrow> (failure + unit) \<times> world" where
  "application_main args w = (Inr (), w)"

subsection \<open>\<^verbatim>\<open>show_usage\<close>\<close>

definition usage_text :: string where
  "usage_text =
     ''usage: pseudoword [-cgnpwh] [DICT]\<newline>'' @
     ''\<newline>'' @
     ''Generate random pseudowords.\<newline>'' @
     ''\<newline>'' @
     ''Argument:\<newline>'' @
     '' DICT       Sample words from this file (default: /usr/share/dict/words)\<newline>'' @
     ''\<newline>'' @
     ''Options:\<newline>'' @
     '' -c PCOMP   Probability of forming compound word (default: 0)\<newline>'' @
     '' -g N       N of N-gram model (default: 3)\<newline>'' @
     '' -n NWORDS  Number of generated pseudowords (default: 10)\<newline>'' @
     '' -p PREFIX  Constrain generated pseudowords to start with this prefix\<newline>'' @
     '' -w WIDTH   Width of output at which lines should be wrapped\<newline>'' @
     '' -h         Print this message and exit\<newline>''"

text \<open>The stream argument \<^verbatim>\<open>out\<close> is the text written to it so far.\<close>

definition show_usage :: "string \<Rightarrow> string" where
  "show_usage out = out @ usage_text"

subsection \<open>The library functions \<^verbatim>\<open>parse_args\<close> calls\<close>

text \<open>
  \<^verbatim>\<open>std::stoi(str)\<close> is \<^verbatim>\<open>strtol(str, &end, 10)\<close> with two checks: leading white space
  is skipped, an optional sign is read, then the longest run of decimal digits; what
  follows the digits is ignored. No digit at all is \<^verbatim>\<open>std::invalid_argument\<close>; a value
  outside the range of \<^verbatim>\<open>int\<close> (32 bits) is \<^verbatim>\<open>std::out_of_range\<close>. The message of both
  is the function's name, as libstdc++ has it.
\<close>

definition isspace :: "char \<Rightarrow> bool" where
  "isspace c \<longleftrightarrow> c = CHR '' '' \<or> (9 \<le> (of_char c :: nat) \<and> (of_char c :: nat) \<le> 13)"

definition isdigit :: "char \<Rightarrow> bool" where
  "isdigit c \<longleftrightarrow> 48 \<le> (of_char c :: nat) \<and> (of_char c :: nat) \<le> 57"

definition digit_value :: "char \<Rightarrow> int" where
  "digit_value c = of_char c - 48"

definition INT_MIN :: int where
  "INT_MIN = - (2 ^ 31)"

definition INT_MAX :: int where
  "INT_MAX = 2 ^ 31 - 1"

definition decimal :: "string \<Rightarrow> int" where
  "decimal ds = foldl (\<lambda>a d. 10 * a + digit_value d) 0 ds"

definition stoi :: "string \<Rightarrow> exn + int" where
  "stoi str =
     (let s = dropWhile isspace str;
          negative = (take 1 s = ''-'');
          body = (if take 1 s = ''-'' \<or> take 1 s = ''+'' then drop 1 s else s);
          ds = takeWhile isdigit body
      in if ds = [] then Inl (Invalid_argument ''stoi'')
         else let v = (if negative then - decimal ds else decimal ds)
              in if v < INT_MIN \<or> INT_MAX < v then Inl (Out_of_range ''stoi'')
                 else Inr v)"

text \<open>
  \<^verbatim>\<open>std::stod\<close> produces a floating-point value; it is a parameter \<open>stod\<close> of the
  functions below, of type \<open>string \<Rightarrow> exn + 'd\<close>.

  \<^verbatim>\<open>getopt(argc, argv, ":c:g:n:p:w:h")\<close> is the C library's. Its state between calls is
  the rest of the option group being read and the arguments not yet looked at. A call
  returns \<open>None\<close> for \<^verbatim>\<open>-1\<close>, otherwise the character and the value of \<^verbatim>\<open>optarg\<close>.
  Because the option string begins with a colon, a missing option-argument is reported
  as \<^verbatim>\<open>':'\<close>, an unknown option character as \<^verbatim>\<open>'?'\<close>, and \<^verbatim>\<open>getopt\<close> itself prints
  nothing.
\<close>

definition optstring :: string where
  "optstring = '':c:g:n:p:w:h''"

text \<open>
  \<open>opt_lookup ostr c\<close>: \<open>None\<close> when \<open>c\<close> is no option character of \<open>ostr\<close> (a colon never
  is), otherwise whether the option takes an argument.
\<close>

fun opt_lookup :: "string \<Rightarrow> char \<Rightarrow> bool option" where
  "opt_lookup [] c = None"
| "opt_lookup (x # xs) c =
     (if x = c \<and> c \<noteq> CHR '':'' then Some (take 1 xs = '':'')
      else opt_lookup xs c)"

type_synonym getopt_state = "string \<times> string list"
type_synonym getopt_ret = "char \<times> string option"

text \<open>
  How \<^verbatim>\<open>getopt\<close> treats operands is not fixed by the program. The option string begins
  with neither \<^verbatim>\<open>+\<close> nor \<^verbatim>\<open>-\<close>, so with the GNU C library the scan is \<open>PERMUTE\<close>:
  operands are passed over (and moved behind the options) and the options after them
  are still parsed. With \<^verbatim>\<open>POSIXLY_CORRECT\<close> in the environment, or with a C library that
  follows POSIX to the letter, the scan is \<open>REQUIRE_ORDER\<close> and ends at the first
  operand. The ordering is therefore an input of \<^verbatim>\<open>main\<close>, next to \<open>argv\<close>.
\<close>

datatype getopt_ordering = REQUIRE_ORDER | PERMUTE

text \<open>An operand: an argument that does not begin with a dash, or the lone dash.\<close>

definition nonoption :: "string \<Rightarrow> bool" where
  "nonoption a \<longleftrightarrow> length a = 1 \<or> take 1 a \<noteq> ''-''"

text \<open>
  One option character \<open>c\<close>, with \<open>cs\<close> the rest of its group and \<open>rest\<close> the arguments
  after the group.
\<close>

definition getopt_short :: "string \<Rightarrow> char \<Rightarrow> string \<Rightarrow> string list \<Rightarrow> getopt_ret \<times> getopt_state" where
  "getopt_short ostr c cs rest =
     (case opt_lookup ostr c of
        None \<Rightarrow> ((CHR ''?'', None), (cs, rest))
      | Some False \<Rightarrow> ((c, None), (cs, rest))
      | Some True \<Rightarrow>
          (if cs \<noteq> [] then ((c, Some cs), ([], rest))
           else (case rest of
                   [] \<Rightarrow> ((CHR '':'', None), ([], []))
                 | a # rest' \<Rightarrow> ((c, Some a), ([], rest')))))"

text \<open>
  One call. Inside a group the next character is read. Between groups the scan moves to
  the next argument: when permuting it first passes over the operands; then \<^verbatim>\<open>--\<close> or
  the end of \<open>argv\<close> ends the scan, and so does an operand that was not passed over.
\<close>

fun getopt ::
  "getopt_ordering \<Rightarrow> string \<Rightarrow> getopt_state \<Rightarrow> (getopt_ret \<times> getopt_state) option" where
  "getopt mode ostr (c # cs, rest) = Some (getopt_short ostr c cs rest)"
| "getopt mode ostr ([], rest) =
     (case (if mode = PERMUTE then dropWhile nonoption rest else rest) of
        [] \<Rightarrow> None
      | a # rest' \<Rightarrow>
          (if a = ''--'' then None
           else if nonoption a then None
           else (case a of
                   d # c # cs \<Rightarrow> Some (getopt_short ostr c cs rest')
                 | _ \<Rightarrow> None)))"

text \<open>The successive results of \<^verbatim>\<open>getopt\<close>, up to the call that returns \<^verbatim>\<open>-1\<close>.\<close>

function getopt_results ::
  "getopt_ordering \<Rightarrow> string \<Rightarrow> getopt_state \<Rightarrow> getopt_ret list" where
  "getopt_results mode ostr st =
     (case getopt mode ostr st of
        None \<Rightarrow> []
      | Some (r, st') \<Rightarrow> r # getopt_results mode ostr st')"
  by pat_completeness auto
termination
proof (relation "measures [\<lambda>(mode, ostr, grp, rest). length rest,
                           \<lambda>(mode, ostr, grp, rest). length grp]")
  show "wf (measures [\<lambda>(mode, ostr, grp, rest). length rest,
                      \<lambda>(mode :: getopt_ordering, ostr :: string, grp :: string, rest :: string list).
                         length grp])"
    by simp
next
  fix mode :: getopt_ordering and ostr :: string and st st' :: getopt_state
    and x2 :: "getopt_ret \<times> getopt_state" and r :: getopt_ret
  assume g: "getopt mode ostr st = Some x2" and x: "(r, st') = x2"
  obtain grp rest where st: "st = (grp, rest)" by (cases st)
  obtain grp' rest' where st': "st' = (grp', rest')" by (cases st')
  have short: "length rest2 < length rest1 \<or> (length rest2 = length rest1 \<and> length cs' \<le> length cs)"
    if "getopt_short ostr c cs rest1 = (r, cs', rest2)" for c cs cs' rest1 rest2
    using that by (auto simp: getopt_short_def split: option.splits bool.splits if_splits list.splits)
  have "length rest' < length rest \<or> (length rest' = length rest \<and> length grp' < length grp)"
  proof (cases grp)
    case (Cons c cs)
    with g x st st' have "getopt_short ostr c cs rest = (r, grp', rest')" by auto
    from short [OF this] Cons show ?thesis by auto
  next
    case Nil
    define skipped where "skipped = (if mode = PERMUTE then dropWhile nonoption rest else rest)"
    have le: "length skipped \<le> length rest"
      by (simp add: skipped_def length_dropWhile_le)
    from g x st st' Nil obtain a rest1 c cs where
      s: "skipped = a # rest1" and "getopt_short ostr c cs rest1 = (r, grp', rest')"
      by (auto simp: skipped_def split: list.splits if_splits)
    from short [OF this(2)] s le show ?thesis by auto
  qed
  with st st' show "((mode, ostr, st'), (mode, ostr, st)) \<in>
      measures [\<lambda>(mode, ostr, grp, rest). length rest, \<lambda>(mode, ostr, grp, rest). length grp]"
    by simp
qed

subsection \<open>\<^verbatim>\<open>parse_args\<close>\<close>

text \<open>
  The body of the \<^verbatim>\<open>switch (optch)\<close>, case by case in the order of the source.
\<close>

definition parse_switch ::
  "(string \<Rightarrow> exn + 'd) \<Rightarrow> char \<Rightarrow> string option \<Rightarrow> 'd program_arguments \<Rightarrow> world
     \<Rightarrow> (failure + 'd program_arguments) \<times> world" where
  "parse_switch stod optch optarg args w =
     (if optch = CHR ''c'' then
        (case optarg of
           None \<Rightarrow> (Inl Null_optarg, w)
         | Some a \<Rightarrow>
             (case stod a of
                Inl e \<Rightarrow> (Inl (Thrown e), w)
              | Inr v \<Rightarrow> (Inr (args\<lparr>compound_probability := v\<rparr>), w)))
      else if optch = CHR ''g'' then
        (case optarg of
           None \<Rightarrow> (Inl Null_optarg, w)
         | Some a \<Rightarrow>
             (case stoi a of
                Inl e \<Rightarrow> (Inl (Thrown e), w)
              | Inr v \<Rightarrow> (Inr (args\<lparr>ngram_length := v\<rparr>), w)))
      else if optch = CHR ''n'' then
        (case optarg of
           None \<Rightarrow> (Inl Null_optarg, w)
         | Some a \<Rightarrow>
             (case stoi a of
                Inl e \<Rightarrow> (Inl (Thrown e), w)
              | Inr v \<Rightarrow> (Inr (args\<lparr>number_of_words := v\<rparr>), w)))
      else if optch = CHR ''p'' then
        (case optarg of
           None \<Rightarrow> (Inl Null_optarg, w)
         | Some a \<Rightarrow> (Inr (args\<lparr>constrained_prefix := a\<rparr>), w))
      else if optch = CHR ''w'' then
        (case optarg of
           None \<Rightarrow> (Inl Null_optarg, w)
         | Some a \<Rightarrow> (Inr (args\<lparr>dictionary_filename := a\<rparr>), w))
      else if optch = CHR ''h'' then
        (Inr (args\<lparr>done_flag := True\<rparr>), w\<lparr>stdout := show_usage (stdout w)\<rparr>)
      else if optch = CHR '':'' then
        (Inl (Thrown (Runtime_error ''missing argument'')), w)
      else if optch = CHR ''?'' then
        (Inl (Thrown (Runtime_error ''unknown option'')), w)
      else (Inl Assert_failed, w))"

text \<open>
  The \<^verbatim>\<open>for\<close> loop runs the switch on each result of \<^verbatim>\<open>getopt\<close> in turn and is left by
  the first \<^verbatim>\<open>throw\<close>. The switch never touches \<^verbatim>\<open>argv\<close> or the state of \<^verbatim>\<open>getopt\<close>, so
  the loop is a recursion over the list of results.
\<close>

fun parse_opts ::
  "(string \<Rightarrow> exn + 'd) \<Rightarrow> getopt_ret list \<Rightarrow> 'd program_arguments \<Rightarrow> world
     \<Rightarrow> (failure + 'd program_arguments) \<times> world" where
  "parse_opts stod [] args w = (Inr args, w)"
| "parse_opts stod ((optch, optarg) # rs) args w =
     (case parse_switch stod optch optarg args w of
        (Inl f, w') \<Rightarrow> (Inl f, w')
      | (Inr args', w') \<Rightarrow> parse_opts stod rs args' w')"

text \<open>
  \<open>argv\<close> is the whole argument vector, program name first; \<^verbatim>\<open>getopt\<close> starts at
  \<^verbatim>\<open>argv[1]\<close>.
\<close>

definition parsed_options :: "getopt_ordering \<Rightarrow> string list \<Rightarrow> getopt_ret list" where
  "parsed_options mode argv = getopt_results mode optstring ([], tl argv)"

definition parse_args ::
  "getopt_ordering \<Rightarrow> (string \<Rightarrow> exn + 'd::zero) \<Rightarrow> string list \<Rightarrow> world
     \<Rightarrow> (failure + 'd program_arguments) \<times> world" where
  "parse_args mode stod argv w =
     parse_opts stod (parsed_options mode argv) program_arguments_init w"

subsection \<open>\<^verbatim>\<open>main\<close>\<close>

definition EXIT_SUCCESS :: int where
  "EXIT_SUCCESS = 0"

definition EXIT_FAILURE :: int where
  "EXIT_FAILURE = 1"

text \<open>
  The handler \<^verbatim>\<open>catch (std::exception& e)\<close>: every thrown exception of the model is
  caught, reported on \<^verbatim>\<open>std::cerr\<close> and turned into \<^verbatim>\<open>EXIT_FAILURE\<close>. An abort is not an
  exception and passes through.
\<close>

fun catch_exception :: "failure \<Rightarrow> world \<Rightarrow> (failure + int) \<times> world" where
  "catch_exception (Thrown e) w =
     (Inr EXIT_FAILURE, w\<lparr>stderr := stderr w @ ''error: '' @ what e @ ''\<newline>''\<rparr>)"
| "catch_exception f w = (Inl f, w)"

text \<open>
  \<open>main_with app\<close> is \<^verbatim>\<open>main\<close> with the function called at \<^verbatim>\<open>application_main(args)\<close>
  left open, so that a statement "for every \<open>app\<close>" says the call is not made. Control
  that reaches the end of \<^verbatim>\<open>main\<close> returns 0.
\<close>

definition main_with ::
  "('d::zero program_arguments \<Rightarrow> world \<Rightarrow> (failure + unit) \<times> world)
     \<Rightarrow> getopt_ordering \<Rightarrow> (string \<Rightarrow> exn + 'd) \<Rightarrow> string list \<Rightarrow> world
     \<Rightarrow> (failure + int) \<times> world" where
  "main_with app mode stod argv w =
     (case parse_args mode stod argv w of
        (Inl f, w1) \<Rightarrow> catch_exception f w1
      | (Inr args, w1) \<Rightarrow>
          (if \<not> done_flag args then
             (case app args w1 of
                (Inl f, w2) \<Rightarrow> catch_exception f w2
              | (Inr u, w2) \<Rightarrow> (Inr EXIT_SUCCESS, w2))
           else (Inr EXIT_SUCCESS, w1)))"

definition main ::
  "getopt_ordering \<Rightarrow> (string \<Rightarrow> exn + 'd::zero) \<Rightarrow> string list \<Rightarrow> world
     \<Rightarrow> (failure + int) \<times> world" where
  "main = main_with application_main"

subsection \<open>Stand-ins for closed statements\<close>

text \<open>
  Every theorem below holds for every ordering, every \<open>stod\<close> and every world. Where a
  statement has to be closed, it uses the empty streams and \<open>stod_integral\<close>, which reads
  an integer literal as \<open>stoi\<close> does and returns it as a real; \<^verbatim>\<open>std::stod\<close> agrees with
  it on such literals.
\<close>

definition stod_integral :: "string \<Rightarrow> exn + real" where
  "stod_integral str =
     (case stoi str of
        Inl e \<Rightarrow> Inl (Invalid_argument ''stod'')
      | Inr v \<Rightarrow> Inr (of_int v))"

definition empty_world :: world where
  "empty_world = \<lparr>stdout = [], stderr = []\<rparr>"

text \<open>How often \<^verbatim>\<open>getopt\<close> returned \<^verbatim>\<open>'h'\<close>.\<close>

definition usage_count :: "getopt_ret list \<Rightarrow> nat" where
  "usage_count rs = length (filter (\<lambda>r. fst r = CHR ''h'') rs)"

text \<open>
  The results \<^verbatim>\<open>getopt\<close> can give for this option string: one of the five options
  with its argument, or \<^verbatim>\<open>'h'\<close>, \<^verbatim>\<open>':'\<close>, \<^verbatim>\<open>'?'\<close> without one.
\<close>

definition wf_ret :: "getopt_ret \<Rightarrow> bool" where
  "wf_ret r \<longleftrightarrow>
     (fst r \<in> set ''cgnpw'' \<and> snd r \<noteq> None) \<or> (fst r \<in> set ''h:?'' \<and> snd r = None)"

section \<open>Properties of \<^verbatim>\<open>getopt\<close> and of the option loop\<close>

declare getopt_results.simps [simp del]

lemma getopt_results_None:
  "getopt mode ostr st = None \<Longrightarrow> getopt_results mode ostr st = []"
  by (subst getopt_results.simps) simp

lemma getopt_results_Some:
  "getopt mode ostr st = Some (r, st') \<Longrightarrow>
     getopt_results mode ostr st = r # getopt_results mode ostr st'"
  by (subst getopt_results.simps) simp

lemma opt_lookup_optstring:
  "opt_lookup optstring c =
     (if c \<in> set ''cgnpw'' then Some True else if c = CHR ''h'' then Some False else None)"
  by (auto simp: optstring_def)

lemma getopt_short_wf: "wf_ret (fst (getopt_short optstring c cs rest))"
  by (simp add: getopt_short_def opt_lookup_optstring wf_ret_def split: list.splits)

lemma getopt_wf:
  assumes "getopt mode optstring st = Some (r, st')"
  shows "wf_ret r"
proof -
  obtain grp rest where st: "st = (grp, rest)" by (cases st)
  from assms st obtain c cs rest1 where "getopt_short optstring c cs rest1 = (r, st')"
    by (cases grp) (auto split: list.splits if_splits)
  with getopt_short_wf [of c cs rest1] show ?thesis by simp
qed

lemma getopt_results_wf:
  "r \<in> set (getopt_results mode ostr st) \<Longrightarrow> ostr = optstring \<Longrightarrow> wf_ret r"
proof (induction mode ostr st rule: getopt_results.induct)
  case (1 mode ostr st)
  show ?case
  proof (cases "getopt mode ostr st")
    case None
    with "1.prems" show ?thesis by (simp add: getopt_results_None)
  next
    case (Some p)
    obtain r' st' where p: "p = (r', st')" by (cases p)
    with Some "1.prems" have "r = r' \<or> r \<in> set (getopt_results mode ostr st')"
      by (simp add: getopt_results_Some)
    then show ?thesis
    proof
      assume "r = r'"
      with Some p "1.prems" show ?thesis by (simp add: getopt_wf)
    next
      assume "r \<in> set (getopt_results mode ostr st')"
      with "1.IH" Some p "1.prems" show ?thesis by simp
    qed
  qed
qed

text \<open>An argument vector in which nothing after the program name begins with a dash.\<close>

lemma no_options:
  assumes "\<forall>a\<in>set rest. take 1 a \<noteq> ''-''"
  shows "getopt_results mode ostr ([], rest) = []"
proof (rule getopt_results_None)
  from assms have all: "\<forall>a\<in>set rest. nonoption a"
    by (simp add: nonoption_def)
  then have skip: "dropWhile nonoption rest = []" by simp
  show "getopt mode ostr ([], rest) = None"
  proof (cases "mode = PERMUTE")
    case True
    then show ?thesis by (simp add: skip)
  next
    case False
    with all assms show ?thesis by (cases rest) auto
  qed
qed

text \<open>One option with its argument in the next element of \<open>argv\<close>.\<close>

lemma parsed_options_single:
  assumes "c \<in> set ''cgnpw''"
  shows "parsed_options mode [prog, [CHR ''-'', c], a] = [(c, Some a)]"
proof -
  from assms
  have "getopt mode optstring ([], [[CHR ''-'', c], a]) = Some ((c, Some a), ([], []))"
    by (auto simp: getopt_short_def opt_lookup_optstring nonoption_def)
  then have "getopt_results mode optstring ([], [[CHR ''-'', c], a])
               = (c, Some a) # getopt_results mode optstring ([], [])"
    by (rule getopt_results_Some)
  moreover have "getopt_results mode optstring ([], []) = []"
    by (rule getopt_results_None) simp
  ultimately show ?thesis by (simp add: parsed_options_def)
qed

lemma parse_opts_append:
  "parse_opts stod (xs @ ys) args w =
     (case parse_opts stod xs args w of
        (Inl f, w') \<Rightarrow> (Inl f, w')
      | (Inr args', w') \<Rightarrow> parse_opts stod ys args' w')"
  by (induction xs arbitrary: args w) (auto split: prod.splits sum.splits)

text \<open>
  The \<^verbatim>\<open>default:\<close> branch and a null \<^verbatim>\<open>optarg\<close> are never reached: \<^verbatim>\<open>parse_args\<close>
  either returns or throws.
\<close>

lemma parse_switch_wf:
  "wf_ret (c, oa) \<Longrightarrow> fst (parse_switch stod c oa args w) \<noteq> Inl Assert_failed
     \<and> fst (parse_switch stod c oa args w) \<noteq> Inl Null_optarg"
  unfolding wf_ret_def parse_switch_def
  by (cases oa) (auto split: sum.splits)

lemma parse_opts_wf:
  "\<forall>r\<in>set rs. wf_ret r \<Longrightarrow> fst (parse_opts stod rs args w) \<noteq> Inl Assert_failed
     \<and> fst (parse_opts stod rs args w) \<noteq> Inl Null_optarg"
proof (induction rs arbitrary: args w)
  case Nil
  then show ?case by simp
next
  case (Cons r rs)
  obtain c oa where r: "r = (c, oa)" by (cases r)
  from Cons.prems r have wf: "wf_ret (c, oa)" by simp
  show ?case
  proof (cases "parse_switch stod c oa args w")
    case (Pair res w')
    show ?thesis
    proof (cases res)
      case (Inl f)
      with Pair parse_switch_wf [OF wf, of stod args w] r show ?thesis by simp
    next
      case (Inr args')
      with Pair r Cons.IH [of args' w'] Cons.prems show ?thesis by simp
    qed
  qed
qed

lemma parse_args_never_aborts:
  "fst (parse_args mode stod argv w) \<noteq> Inl Assert_failed
     \<and> fst (parse_args mode stod argv w) \<noteq> Inl Null_optarg"
  unfolding parse_args_def parsed_options_def
  by (rule parse_opts_wf) (simp add: getopt_results_wf)

text \<open>What one pass through the switch, and the whole loop, do to the streams and the flag.\<close>

lemma parse_switch_effect:
  assumes "parse_switch stod c oa args w = (res, w')"
  shows "stderr w' = stderr w"
    and "stdout w' = (if c = CHR ''h'' then stdout w @ usage_text else stdout w)"
    and "res = Inr args' \<Longrightarrow> done_flag args' = (done_flag args \<or> c = CHR ''h'')"
  using assms unfolding parse_switch_def show_usage_def
  by (auto split: if_splits option.splits sum.splits)

lemma parse_opts_effect:
  "parse_opts stod rs args w = (Inr args', w') \<Longrightarrow>
     stderr w' = stderr w
     \<and> stdout w' = stdout w @ concat (replicate (usage_count rs) usage_text)
     \<and> done_flag args' = (done_flag args \<or> CHR ''h'' \<in> fst ` set rs)"
proof (induction rs arbitrary: args w)
  case Nil
  then show ?case by (simp add: usage_count_def)
next
  case (Cons r rs)
  obtain c oa where r: "r = (c, oa)" by (cases r)
  obtain res wm where sw: "parse_switch stod c oa args w = (res, wm)"
    by (cases "parse_switch stod c oa args w")
  with Cons.prems r obtain am where res: "res = Inr am"
    by (cases res) auto
  with Cons.prems r sw have rest: "parse_opts stod rs am wm = (Inr args', w')" by simp
  note ih = Cons.IH [OF rest]
  note e1 = parse_switch_effect(1) [OF sw]
  note e2 = parse_switch_effect(2) [OF sw]
  note e3 = parse_switch_effect(3) [OF sw res]
  from ih e1 have "stderr w' = stderr w" by simp
  moreover from ih e2 r
  have "stdout w' = stdout w @ concat (replicate (usage_count (r # rs)) usage_text)"
    by (simp add: usage_count_def)
  moreover from ih e3 r
  have "done_flag args' = (done_flag args \<or> CHR ''h'' \<in> fst ` set (r # rs))"
    by auto
  ultimately show ?case by simp
qed

text \<open>
  Whether the loop returns or throws, it writes nothing to \<^verbatim>\<open>std::cerr\<close> and only adds
  to \<^verbatim>\<open>std::cout\<close>.
\<close>

lemma parse_opts_streams:
  "parse_opts stod rs args w = (res, w') \<Longrightarrow>
     stderr w' = stderr w \<and> prefix (stdout w) (stdout w')"
proof (induction rs arbitrary: args w)
  case Nil
  then show ?case by simp
next
  case (Cons r rs)
  obtain c oa where r: "r = (c, oa)" by (cases r)
  obtain rm wm where sw: "parse_switch stod c oa args w = (rm, wm)"
    by (cases "parse_switch stod c oa args w")
  note e1 = parse_switch_effect(1) [OF sw]
  note e2 = parse_switch_effect(2) [OF sw]
  from e2 have pre: "prefix (stdout w) (stdout wm)" by (simp split: if_splits)
  show ?case
  proof (cases rm)
    case (Inl f)
    with Cons.prems r sw e1 pre show ?thesis by auto
  next
    case (Inr am)
    with Cons.prems r sw have "parse_opts stod rs am wm = (res, w')" by simp
    from Cons.IH [OF this] e1 pre show ?thesis by (auto intro: prefix_order.trans)
  qed
qed

text \<open>When \<^verbatim>\<open>getopt\<close> reports a missing argument, and when an unknown option.\<close>

lemma getopt_short_missing_iff:
  "fst (fst (getopt_short optstring c cs rest)) = CHR '':''
     \<longleftrightarrow> c \<in> set ''cgnpw'' \<and> cs = [] \<and> rest = []"
  by (auto simp: getopt_short_def opt_lookup_optstring split: list.splits)

lemma getopt_short_unknown_iff:
  "fst (fst (getopt_short optstring c cs rest)) = CHR ''?'' \<longleftrightarrow> c \<notin> set ''cgnpwh''"
  by (auto simp: getopt_short_def opt_lookup_optstring split: list.splits)

section \<open>Properties of \<^verbatim>\<open>main\<close>\<close>

lemma main_with_returned:
  "parse_args mode stod argv w = (Inr args, w1) \<Longrightarrow> done_flag args \<Longrightarrow>
     main_with app mode stod argv w = (Inr EXIT_SUCCESS, w1)"
  by (simp add: main_with_def)

lemma main_with_thrown:
  "parse_args mode stod argv w = (Inl (Thrown e), w1) \<Longrightarrow>
     main_with app mode stod argv w =
       (Inr EXIT_FAILURE, w1\<lparr>stderr := stderr w1 @ ''error: '' @ what e @ ''\<newline>''\<rparr>)"
  by (simp add: main_with_def)

text \<open>
  Once \<^verbatim>\<open>parse_args\<close> has returned, \<^verbatim>\<open>main\<close> adds nothing to either stream, whatever
  the parameters are: the program prints no word, for any word count.
\<close>

lemma main_after_parse:
  "parse_args mode stod argv w = (Inr args, w1) \<Longrightarrow>
     main mode stod argv w = (Inr EXIT_SUCCESS, w1)"
  by (simp add: main_def main_with_def application_main_def)

text \<open>\<^verbatim>\<open>main\<close> always returns an exit status: the process never aborts.\<close>

lemma main_returns:
  "fst (main mode stod argv w) = Inr EXIT_SUCCESS
     \<or> fst (main mode stod argv w) = Inr EXIT_FAILURE"
proof (cases "parse_args mode stod argv w")
  case (Pair res w1)
  show ?thesis
  proof (cases res)
    case (Inr args)
    with Pair show ?thesis by (simp add: main_after_parse)
  next
    case (Inl f)
    with Pair parse_args_never_aborts [of mode stod argv w] obtain e where "f = Thrown e"
      by (cases f) auto
    with Pair Inl show ?thesis by (simp add: main_def main_with_thrown)
  qed
qed

section \<open>The stub\<close>

text \<open>
  C1. For every value of the program arguments, \<^verbatim>\<open>application_main\<close> returns normally
  and leaves both output streams as they were: it computes nothing, prints nothing and
  changes no state. Model building, sampling and compounding are not in the program:
  all that \<^verbatim>\<open>main\<close> does is parse the command line and report an exception.
\<close>

theorem application_main_is_stub:
  "application_main args w = (Inr (), w)
   \<and> main mode stod argv w =
       (case parse_args mode stod argv w of
          (Inl f, w1) \<Rightarrow> catch_exception f w1
        | (Inr parsed, w1) \<Rightarrow> (Inr EXIT_SUCCESS, w1))"
  by (simp add: application_main_def main_def main_with_def split: prod.splits sum.splits)

section \<open>Where the option arguments are stored\<close>

text \<open>
  C2. The argument of \<^verbatim>\<open>-w\<close> goes into \<open>dictionary_filename\<close> and the argument of \<^verbatim>\<open>-p\<close>
  into \<open>constrained_prefix\<close>; every other field keeps its value. The record has no field
  for a wrapping width. The first two conjuncts are the switch at any point of the loop,
  the last two a whole command line with the one option.
\<close>

theorem w_option_stored_in_dictionary_filename:
  "parse_switch stod (CHR ''w'') (Some a) args w = (Inr (args\<lparr>dictionary_filename := a\<rparr>), w)
   \<and> parse_switch stod (CHR ''p'') (Some a) args w = (Inr (args\<lparr>constrained_prefix := a\<rparr>), w)
   \<and> parse_args mode stod [prog, ''-w'', a] w
         = (Inr (program_arguments_init\<lparr>dictionary_filename := a\<rparr>), w)
   \<and> parse_args mode stod [prog, ''-p'', a] w
         = (Inr (program_arguments_init\<lparr>constrained_prefix := a\<rparr>), w)"
  by (simp add: parse_args_def parsed_options_single parse_switch_def)

section \<open>Defaults\<close>

text \<open>
  C3. When no option is given (no element of \<open>argv\<close> after the program name begins with
  a dash), \<^verbatim>\<open>parse_args\<close> returns the defaults: compound probability 0, n-gram order 3,
  word count 10, empty prefix; the dictionary file name is empty and \<open>done\<close> is false.
\<close>

theorem parse_args_defaults:
  assumes "\<forall>a\<in>set (tl argv). take 1 a \<noteq> ''-''"
  shows "parse_args mode stod argv w =
           (Inr \<lparr>compound_probability = 0, ngram_length = 3, number_of_words = 10,
                 constrained_prefix = [], dictionary_filename = [], done_flag = False\<rparr>, w)"
  using assms
  by (simp add: parse_args_def parsed_options_def no_options program_arguments_init_def)

theorem parse_args_defaults_witness:
  "take 1 ''words.txt'' \<noteq> ''-''
   \<and> parse_args PERMUTE stod_integral [''pseudoword'', ''words.txt''] empty_world =
         (Inr \<lparr>compound_probability = 0, ngram_length = 3, number_of_words = 10,
               constrained_prefix = [], dictionary_filename = [], done_flag = False\<rparr>,
          empty_world)"
proof -
  have h: "\<forall>a\<in>set (tl [''pseudoword'', ''words.txt'']). take 1 a \<noteq> ''-''" by simp
  from parse_args_defaults [OF h, of PERMUTE stod_integral empty_world] show ?thesis by simp
qed

section \<open>No range check on the parameters\<close>




section \<open>Errors of the command line\<close>

text \<open>
  C9, as stated, fails. The loop is left by the first \<^verbatim>\<open>throw\<close>, so an option that
  lacks its argument, or an unrecognised one, decides the exception only if nothing
  before it has thrown. In \<^verbatim>\<open>pseudoword -g abc -x\<close> the unrecognised \<^verbatim>\<open>-x\<close> is on the
  command line, yet \<^verbatim>\<open>parse_args\<close> throws the \<^verbatim>\<open>std::invalid_argument\<close> of \<^verbatim>\<open>std::stoi\<close>; in
  \<^verbatim>\<open>pseudoword -x -g\<close> the option \<^verbatim>\<open>-g\<close> lacks its argument, yet the message is
  \<^verbatim>\<open>unknown option\<close>.
\<close>

theorem earlier_option_throws_first_counterexample:
  "(CHR ''?'', None) \<in> set (parsed_options PERMUTE [''pseudoword'', ''-g'', ''abc'', ''-x''])
   \<and> parse_args PERMUTE stod_integral [''pseudoword'', ''-g'', ''abc'', ''-x''] empty_world
       = (Inl (Thrown (Invalid_argument ''stoi'')), empty_world)
   \<and> (CHR '':'', None) \<in> set (parsed_options PERMUTE [''pseudoword'', ''-x'', ''-g''])
   \<and> parse_args PERMUTE stod_integral [''pseudoword'', ''-x'', ''-g''] empty_world
       = (Inl (Thrown (Runtime_error ''unknown option'')), empty_world)"
  by code_simp

text \<open>
  C9, amended. Take any argument vector, either ordering of \<^verbatim>\<open>getopt\<close>, and any point
  of the option loop that is reached, that is, the switch returned normally on all
  earlier results \<open>rs\<close> of \<^verbatim>\<open>getopt\<close>. If the next result is \<^verbatim>\<open>':'\<close> (an option that
  requires an argument was given without one), \<^verbatim>\<open>parse_args\<close> throws
  \<^verbatim>\<open>std::runtime_error("missing argument")\<close>; if it is \<^verbatim>\<open>'?'\<close> (an unrecognised option
  character), it throws \<^verbatim>\<open>std::runtime_error("unknown option")\<close>. In both cases \<^verbatim>\<open>main\<close>
  appends \<^verbatim>\<open>error: \<close>, the message and a newline to \<^verbatim>\<open>std::cerr\<close>, which held nothing
  else from this run, and returns \<^verbatim>\<open>EXIT_FAILURE\<close>, whatever function stands at the call
  of \<^verbatim>\<open>application_main\<close>: that call is not made.
\<close>

theorem parse_args_runtime_errors:
  assumes "parsed_options mode argv = rs @ (c, oa) # rest"
      and "parse_opts stod rs program_arguments_init w = (Inr args1, w1)"
  shows "(c = CHR '':'' \<longrightarrow>
            parse_args mode stod argv w
              = (Inl (Thrown (Runtime_error ''missing argument'')), w1)
            \<and> main_with app mode stod argv w
                = (Inr EXIT_FAILURE,
                   w1\<lparr>stderr := stderr w @ ''error: missing argument\<newline>''\<rparr>))
       \<and> (c = CHR ''?'' \<longrightarrow>
            parse_args mode stod argv w
              = (Inl (Thrown (Runtime_error ''unknown option'')), w1)
            \<and> main_with app mode stod argv w
                = (Inr EXIT_FAILURE,
                   w1\<lparr>stderr := stderr w @ ''error: unknown option\<newline>''\<rparr>))"
proof -
  from assms(2) have err: "stderr w1 = stderr w"
    by (simp add: parse_opts_effect)
  have pa: "parse_args mode stod argv w = parse_opts stod ((c, oa) # rest) args1 w1"
    using assms by (simp add: parse_args_def parse_opts_append)
  have m: "parse_args mode stod argv w
             = (Inl (Thrown (Runtime_error ''missing argument'')), w1)"
    if "c = CHR '':''"
    using that pa by (simp add: parse_switch_def)
  have u: "parse_args mode stod argv w
             = (Inl (Thrown (Runtime_error ''unknown option'')), w1)"
    if "c = CHR ''?''"
    using that pa by (simp add: parse_switch_def)
  show ?thesis
    using m u err by (auto dest!: main_with_thrown [where app = app])
qed

theorem parse_args_runtime_errors_witness:
  "parsed_options PERMUTE [''pseudoword'', ''-n'', ''5'', ''words.txt'', ''-g'']
     = [(CHR ''n'', Some ''5'')] @ (CHR '':'', None) # []
   \<and> main PERMUTE stod_integral [''pseudoword'', ''-n'', ''5'', ''words.txt'', ''-g''] empty_world
       = (Inr EXIT_FAILURE, \<lparr>stdout = [], stderr = ''error: missing argument\<newline>''\<rparr>)
   \<and> parsed_options PERMUTE [''pseudoword'', ''words.txt'', ''-x'', ''-h'']
       = [] @ (CHR ''?'', None) # [(CHR ''h'', None)]
   \<and> main PERMUTE stod_integral [''pseudoword'', ''words.txt'', ''-x'', ''-h''] empty_world
       = (Inr EXIT_FAILURE, \<lparr>stdout = [], stderr = ''error: unknown option\<newline>''\<rparr>)
   \<and> parsed_options REQUIRE_ORDER [''pseudoword'', ''-n'', ''5'', ''-g'']
       = [(CHR ''n'', Some ''5'')] @ (CHR '':'', None) # []
   \<and> main REQUIRE_ORDER stod_integral [''pseudoword'', ''-n'', ''5'', ''-g''] empty_world
       = (Inr EXIT_FAILURE, \<lparr>stdout = [], stderr = ''error: missing argument\<newline>''\<rparr>)"
proof -
  have p1: "parsed_options PERMUTE [''pseudoword'', ''-n'', ''5'', ''words.txt'', ''-g'']
              = [(CHR ''n'', Some ''5'')] @ (CHR '':'', None) # []"
    by code_simp
  have p2: "parsed_options PERMUTE [''pseudoword'', ''words.txt'', ''-x'', ''-h'']
              = [] @ (CHR ''?'', None) # [(CHR ''h'', None)]"
    by code_simp
  have p3: "parsed_options REQUIRE_ORDER [''pseudoword'', ''-n'', ''5'', ''-g'']
              = [(CHR ''n'', Some ''5'')] @ (CHR '':'', None) # []"
    by code_simp
  have q: "parse_opts stod_integral [(CHR ''n'', Some ''5'')] program_arguments_init empty_world
             = (Inr (program_arguments_init\<lparr>number_of_words := 5\<rparr>), empty_world)"
    by code_simp
  have q0: "parse_opts stod_integral [] program_arguments_init empty_world
              = (Inr program_arguments_init, empty_world)"
    by simp
  from parse_args_runtime_errors [OF p1 q, of application_main]
       parse_args_runtime_errors [OF p2 q0, of application_main]
       parse_args_runtime_errors [OF p3 q, of application_main] p1 p2 p3
  show ?thesis by (simp add: main_def empty_world_def)
qed

section \<open>The help option\<close>

text \<open>
  C10, as stated, fails. In \<^verbatim>\<open>pseudoword -h -x\<close> the option \<^verbatim>\<open>-h\<close> is parsed and the
  usage text is printed, but the next option makes \<^verbatim>\<open>parse_args\<close> throw: \<^verbatim>\<open>main\<close> reports
  the error and returns \<^verbatim>\<open>EXIT_FAILURE\<close>, not success. In \<^verbatim>\<open>pseudoword -x -h\<close> the throw
  comes first: the loop never gets to \<^verbatim>\<open>-h\<close> and no usage text is printed.
\<close>

theorem help_then_unknown_option_counterexample:
  "(CHR ''h'', None) \<in> set (parsed_options PERMUTE [''pseudoword'', ''-h'', ''-x''])
   \<and> main PERMUTE stod_integral [''pseudoword'', ''-h'', ''-x''] empty_world
       = (Inr EXIT_FAILURE, \<lparr>stdout = usage_text, stderr = ''error: unknown option\<newline>''\<rparr>)
   \<and> (CHR ''h'', None) \<in> set (parsed_options PERMUTE [''pseudoword'', ''-x'', ''-h''])
   \<and> main PERMUTE stod_integral [''pseudoword'', ''-x'', ''-h''] empty_world
       = (Inr EXIT_FAILURE, \<lparr>stdout = [], stderr = ''error: unknown option\<newline>''\<rparr>)
   \<and> EXIT_FAILURE \<noteq> EXIT_SUCCESS"
  by code_simp

text \<open>
  C10, amended. Let \<^verbatim>\<open>-h\<close> be among the options the loop parses: \<^verbatim>\<open>getopt\<close> returns
  \<^verbatim>\<open>'h'\<close> after results \<open>rs\<close> on which the switch returned normally, in the world \<open>w1\<close>.
  Then \<^verbatim>\<open>parse_args\<close> prints the usage text to \<^verbatim>\<open>std::cout\<close> and sets the \<open>done\<close> flag to
  true at that point, and the text stays printed however \<^verbatim>\<open>parse_args\<close> ends; nothing
  goes to \<^verbatim>\<open>std::cerr\<close>. Only the last part needs more: if \<^verbatim>\<open>parse_args\<close> returns (no
  later option makes it throw), the flag it returns is true, \<^verbatim>\<open>std::cout\<close> holds one
  usage text for each \<^verbatim>\<open>-h\<close> and nothing else from this run, and \<^verbatim>\<open>main\<close> returns
  success, whatever function stands at the call of \<^verbatim>\<open>application_main\<close>: that call is
  not made.
\<close>

theorem help_option_prints_usage:
  assumes "parsed_options mode argv = rs @ (CHR ''h'', oa) # rest"
      and "parse_opts stod rs program_arguments_init w = (Inr args1, w1)"
      and "parse_args mode stod argv w = (res, w2)"
  shows "parse_switch stod (CHR ''h'') oa args1 w1
           = (Inr (args1\<lparr>done_flag := True\<rparr>), w1\<lparr>stdout := stdout w1 @ usage_text\<rparr>)
       \<and> stdout w1 = stdout w @ concat (replicate (usage_count rs) usage_text)
       \<and> prefix (stdout w1 @ usage_text) (stdout w2)
       \<and> stderr w2 = stderr w
       \<and> (res = Inr args \<longrightarrow>
            done_flag args
            \<and> stdout w2
                = stdout w @ concat (replicate (usage_count (parsed_options mode argv)) usage_text)
            \<and> 0 < usage_count (parsed_options mode argv)
            \<and> main_with app mode stod argv w = (Inr EXIT_SUCCESS, w2))"
proof -
  let ?a = "args1\<lparr>done_flag := True\<rparr>" and ?w = "w1\<lparr>stdout := stdout w1 @ usage_text\<rparr>"
  have sw: "parse_switch stod (CHR ''h'') oa args1 w1 = (Inr ?a, ?w)"
    by (simp add: parse_switch_def show_usage_def)
  note e1 = parse_opts_effect [OF assms(2)]
  from assms sw have tail: "parse_opts stod rest ?a ?w = (res, w2)"
    by (simp add: parse_args_def parse_opts_append)
  from parse_opts_streams [OF tail]
  have st: "stderr w2 = stderr w1" and pre: "prefix (stdout w1 @ usage_text) (stdout w2)"
    by simp_all
  have ret: "done_flag args
       \<and> stdout w2
           = stdout w @ concat (replicate (usage_count (parsed_options mode argv)) usage_text)
       \<and> 0 < usage_count (parsed_options mode argv)
       \<and> main_with app mode stod argv w = (Inr EXIT_SUCCESS, w2)"
    if r: "res = Inr args"
  proof -
    from assms(3) r
    have po: "parse_opts stod (parsed_options mode argv) program_arguments_init w = (Inr args, w2)"
      by (simp add: parse_args_def)
    note eff = parse_opts_effect [OF po]
    from eff assms(1) have d: "done_flag args" by simp
    from assms(1) have k: "0 < usage_count (parsed_options mode argv)"
      by (simp add: usage_count_def)
    from assms(3) r d have "main_with app mode stod argv w = (Inr EXIT_SUCCESS, w2)"
      by (simp add: main_with_returned)
    with d k eff show ?thesis by simp
  qed
  from sw e1 pre st ret show ?thesis by simp
qed

theorem help_option_prints_usage_witness:
  "parsed_options PERMUTE [''pseudoword'', ''-h'', ''words.txt'', ''-h'']
     = [] @ (CHR ''h'', None) # [(CHR ''h'', None)]
   \<and> parse_args PERMUTE stod_integral [''pseudoword'', ''-h'', ''words.txt'', ''-h''] empty_world
       = (Inr (program_arguments_init\<lparr>done_flag := True\<rparr>),
          \<lparr>stdout = usage_text @ usage_text, stderr = []\<rparr>)
   \<and> usage_count (parsed_options PERMUTE [''pseudoword'', ''-h'', ''words.txt'', ''-h'']) = 2
   \<and> main PERMUTE stod_integral [''pseudoword'', ''-h'', ''words.txt'', ''-h''] empty_world
       = (Inr EXIT_SUCCESS, \<lparr>stdout = usage_text @ usage_text, stderr = []\<rparr>)
   \<and> parsed_options PERMUTE [''pseudoword'', ''-h'', ''words.txt'', ''-n'']
       = [] @ (CHR ''h'', None) # [(CHR '':'', None)]
   \<and> parse_args PERMUTE stod_integral [''pseudoword'', ''-h'', ''words.txt'', ''-n''] empty_world
       = (Inl (Thrown (Runtime_error ''missing argument'')), \<lparr>stdout = usage_text, stderr = []\<rparr>)
   \<and> prefix (stdout empty_world @ usage_text) (stdout \<lparr>stdout = usage_text, stderr = []\<rparr>)"
proof -
  have p1: "parsed_options PERMUTE [''pseudoword'', ''-h'', ''words.txt'', ''-h'']
              = [] @ (CHR ''h'', None) # [(CHR ''h'', None)]"
    by code_simp
  have p2: "parsed_options PERMUTE [''pseudoword'', ''-h'', ''words.txt'', ''-n'']
              = [] @ (CHR ''h'', None) # [(CHR '':'', None)]"
    by code_simp
  have q0: "parse_opts stod_integral [] program_arguments_init empty_world
              = (Inr program_arguments_init, empty_world)"
    by simp
  have r1: "parse_args PERMUTE stod_integral
              [''pseudoword'', ''-h'', ''words.txt'', ''-h''] empty_world
              = (Inr (program_arguments_init\<lparr>done_flag := True\<rparr>),
                 \<lparr>stdout = usage_text @ usage_text, stderr = []\<rparr>)"
    by code_simp
  have r2: "parse_args PERMUTE stod_integral
              [''pseudoword'', ''-h'', ''words.txt'', ''-n''] empty_world
              = (Inl (Thrown (Runtime_error ''missing argument'')),
                 \<lparr>stdout = usage_text, stderr = []\<rparr>)"
    by code_simp
  have k: "usage_count (parsed_options PERMUTE [''pseudoword'', ''-h'', ''words.txt'', ''-h'']) = 2"
    by code_simp
  from help_option_prints_usage
         [OF p1 q0 r1, where app = application_main
            and args = "program_arguments_init\<lparr>done_flag := True\<rparr>"]
       help_option_prints_usage [OF p2 q0 r2, where app = application_main]
       p1 p2 r1 r2 k
  show ?thesis by (simp add: main_def)
qed

end
